theory Spec2Isabelle
  imports Complex_Main
begin

section \<open>The resumable upload client of the yt-upload plugin\<close>

text \<open>
  A shallow embedding of \<^verbatim>\<open>vendor/assets/javascripts/tinymce/plugins/yt-upload/plugin.js\<close>:
  the retry helper \<^verbatim>\<open>RetryHandler\<close>, the resumable upload session \<^verbatim>\<open>MediaUploader\<close> and
  the status poller \<^verbatim>\<open>UploadVideo.prototype.pollForVideoStatus\<close>.

  JavaScript numbers that hold integers (byte offsets, sizes, intervals, HTTP status codes)
  are modelled as unbounded integers; the arithmetic of the source on them is exact for
  every value below \<open>2 ^ 53\<close>. An object of the source is a record, a method is a function
  from the object (and the method's arguments) to the updated object and the list of the
  effects it causes on the outside, in the order the source causes them.
\<close>

subsection \<open>Numbers as strings, strings as numbers\<close>

text \<open>
  String concatenation with a number (\<^verbatim>\<open>'bytes ' + this.offset\<close>) writes the number in
  decimal, with a minus sign when it is negative.
\<close>

definition digit_char :: "nat \<Rightarrow> char" where
  "digit_char d = char_of (48 + d)"

fun string_of_nat :: "nat \<Rightarrow> string" where
  "string_of_nat n =
     (if n < 10 then [digit_char n] else string_of_nat (n div 10) @ [digit_char (n mod 10)])"

declare string_of_nat.simps [simp del]

definition toString :: "int \<Rightarrow> string" where
  "toString i = (if i < 0 then CHR ''-'' # string_of_nat (nat (- i)) else string_of_nat (nat i))"

text \<open>The character class \<^verbatim>\<open>\d\<close>: the ASCII digits.\<close>

definition is_digit :: "char \<Rightarrow> bool" where
  "is_digit c = (48 \<le> (of_char c :: nat) \<and> (of_char c :: nat) \<le> 57)"

text \<open>
  \<^verbatim>\<open>range.match(/\d+/g)\<close>: every maximal run of digits, from left to right; \<^verbatim>\<open>null\<close>
  (here \<open>None\<close>) when the string has no digit. \<open>scan cur cs\<close> reads \<open>cs\<close> with the run
  \<open>cur\<close> open.
\<close>

fun scan :: "string \<Rightarrow> string \<Rightarrow> string list" where
  "scan cur [] = (if cur = [] then [] else [cur])"
| "scan cur (c # cs) =
     (if is_digit c then scan (cur @ [c]) cs
      else if cur = [] then scan [] cs
      else cur # scan [] cs)"

definition match_digits :: "string \<Rightarrow> string list option" where
  "match_digits str = (case scan [] str of [] \<Rightarrow> None | m # ms \<Rightarrow> Some (m # ms))"

text \<open>
  \<^verbatim>\<open>parseInt(ds, 10)\<close> on a string of digits, the only strings the source hands it (the
  matches of \<^verbatim>\<open>/\d+/g\<close>). The value is exact here; the source's is a binary64 number, which
  is the same number as long as it is below \<open>2 ^ 53\<close> (file sizes and offsets are).
\<close>

definition parseInt :: "string \<Rightarrow> int" where
  "parseInt ds = foldl (\<lambda>a c. 10 * a + (int (of_char c) - 48)) 0 ds"

subsection \<open>Requests, responses and effects\<close>

text \<open>The functions handed to \<^verbatim>\<open>setTimeout\<close>: \<^verbatim>\<open>this.resume_.bind(this)\<close> of the uploader.\<close>

datatype callback = Resume

text \<open>
  The functions bound to a request's \<^verbatim>\<open>onload\<close> and \<^verbatim>\<open>onerror\<close>: the function written
  inline in \<^verbatim>\<open>upload\<close>, \<^verbatim>\<open>onUploadError_\<close>, \<^verbatim>\<open>onContentUploadSuccess_\<close> and
  \<^verbatim>\<open>onContentUploadError_\<close>.
\<close>

datatype handler = Upload_onload | OnUploadError | OnContentUploadSuccess | OnContentUploadError

text \<open>
  What \<^verbatim>\<open>xhr.send\<close> is given: the metadata as JSON text, the file itself, the blob
  \<^verbatim>\<open>file.slice(start, end)\<close>, or nothing.
\<close>

datatype content = Metadata string | WholeFile | Slice int int | NoBody

record request =
  req_method :: string
  req_url :: "string option"
  req_headers :: "(string \<times> string) list"
  onload :: handler
  onerror :: handler
  body :: content

text \<open>
  What a method does to the outside: a request it sends, a timer it starts, a call of the
  caller's \<^verbatim>\<open>onComplete\<close> or \<^verbatim>\<open>onError\<close>. (The \<^verbatim>\<open>progress\<close> listener is not modelled.)
\<close>

datatype effect = Send request | SetTimeout callback int | OnComplete string | OnError string

text \<open>
  The \<^verbatim>\<open>e.target\<close> of a \<^verbatim>\<open>load\<close> or \<^verbatim>\<open>error\<close> event: the HTTP status (0 when there
  is no response), the response headers and the response body.
\<close>

record xhr =
  status :: nat
  headers :: "string \<rightharpoonup> string"
  response :: string

definition getResponseHeader :: "xhr \<Rightarrow> string \<Rightarrow> string option" where
  "getResponseHeader x name = headers x name"

datatype error = TypeError

subsection \<open>RetryHandler\<close>


record RetryHandler =
  interval :: int
  maxInterval :: int

text \<open>
  \<^verbatim>\<open>var RetryHandler = function () { this.interval = 1000; this.maxInterval = 60 * 1000; }\<close>
\<close>

definition new_RetryHandler :: RetryHandler where
  "new_RetryHandler = \<lparr>interval = 1000, maxInterval = 60 * 1000\<rparr>"

text \<open>
  \<^verbatim>\<open>getRandomInt_ = function (min, max) { return Math.floor(Math.random() * (max - min + 1) + min); }\<close>

  The value \<^verbatim>\<open>Math.random()\<close> returns is the argument \<open>rnd\<close>: a number with
  \<open>0 \<le> rnd < 1\<close>. The product and the sum are taken exactly, where the source rounds
  them to binary64 numbers. The two are the same number wherever the exact product is a
  binary64 number itself (as for \<open>rnd = 1 / 2\<close> or \<open>rnd = 1023 / 1024\<close>); elsewhere the
  rounding can move the result to the next integer, so the properties below state of the
  result only its range and never which \<open>rnd\<close> gives which integer.
\<close>

definition getRandomInt :: "rat \<Rightarrow> int \<Rightarrow> int \<Rightarrow> int" where
  "getRandomInt rnd mn mx = \<lfloor>rnd * of_int (mx - mn + 1) + of_int mn\<rfloor>"

text \<open>
  \<^verbatim>\<open>nextInterval_ = function () {
    var interval = this.interval * 2 + this.getRandomInt_(0, 1000);
    return Math.min(interval, this.maxInterval); }\<close>
\<close>

definition nextInterval :: "RetryHandler \<Rightarrow> rat \<Rightarrow> int" where
  "nextInterval h rnd =
     (let interval' = interval h * 2 + getRandomInt rnd 0 1000
      in min interval' (maxInterval h))"

text \<open>
  \<^verbatim>\<open>retry = function (fn) { setTimeout(fn, this.interval); this.interval = this.nextInterval_(); }\<close>
\<close>

definition retry :: "RetryHandler \<Rightarrow> callback \<Rightarrow> rat \<Rightarrow> RetryHandler \<times> effect list" where
  "retry h fn rnd = (h\<lparr>interval := nextInterval h rnd\<rparr>, [SetTimeout fn (interval h)])"

text \<open>\<^verbatim>\<open>reset = function () { this.interval = 1000; }\<close>\<close>

definition reset :: "RetryHandler \<Rightarrow> RetryHandler" where
  "reset h = h\<lparr>interval := 1000\<rparr>"

text \<open>
  A history of a retry handler: the calls of \<^verbatim>\<open>retry\<close> (each with the random number drawn
  in it) and of \<^verbatim>\<open>reset\<close> made on it, in order.
\<close>

datatype handler_call = Retry callback rat | Reset

fun call :: "RetryHandler \<Rightarrow> handler_call \<Rightarrow> RetryHandler" where
  "call h (Retry fn rnd) = fst (retry h fn rnd)"
| "call h Reset = reset h"

definition calls :: "RetryHandler \<Rightarrow> handler_call list \<Rightarrow> RetryHandler" where
  "calls h cs = foldl call h cs"

text \<open>A random number as \<^verbatim>\<open>Math.random()\<close> returns it.\<close>

definition is_random :: "rat \<Rightarrow> bool" where
  "is_random rnd = (0 \<le> rnd \<and> rnd < 1)"

fun random_call :: "handler_call \<Rightarrow> bool" where
  "random_call (Retry fn rnd) = is_random rnd"
| "random_call Reset = True"

subsection \<open>MediaUploader\<close>

text \<open>
  The fields of a \<^verbatim>\<open>MediaUploader\<close> that its methods read: \<^verbatim>\<open>this.file.size\<close> and
  \<^verbatim>\<open>this.file.type\<close>, the content type, the metadata (as the text
  \<^verbatim>\<open>JSON.stringify(this.metadata)\<close> gives), the token, the offset, the chunk size, the retry
  handler, the URL (\<^verbatim>\<open>null\<close>, here \<open>None\<close>, once a response without a \<^verbatim>\<open>Location\<close>
  header has been stored in it) and the HTTP method of the first request.
\<close>

record MediaUploader =
  file_size :: int
  file_type :: string
  contentType :: string
  metadata :: string
  token :: string
  offset :: int
  chunkSize :: int
  retryHandler :: RetryHandler
  url :: "string option"
  httpMethod :: string

text \<open>
  The options of the constructor. \<open>opt_url\<close> is \<^verbatim>\<open>options.url\<close> when it is given and
  what \<^verbatim>\<open>buildUrl_\<close> returns otherwise; \<open>opt_metadata\<close> is the JSON text of the metadata
  the constructor stores.
\<close>

record options =
  opt_file_size :: int
  opt_file_type :: string
  opt_contentType :: "string option"
  opt_metadata :: string
  opt_token :: string
  opt_offset :: "int option"
  opt_chunkSize :: "int option"
  opt_url :: string
  opt_fileId :: "string option"

text \<open>
  \<^verbatim>\<open>this.contentType = options.contentType || this.file.type || 'application/octet-stream';
  this.offset = options.offset || 0;
  this.chunkSize = options.chunkSize || 0;
  this.retryHandler = new RetryHandler();
  this.httpMethod = options.fileId ? 'PUT' : 'POST';\<close>
\<close>

definition new_MediaUploader :: "options \<Rightarrow> MediaUploader" where
  "new_MediaUploader opts =
     \<lparr>file_size = opt_file_size opts,
      file_type = opt_file_type opts,
      contentType =
        (case opt_contentType opts of
           Some ct \<Rightarrow> if ct \<noteq> [] then ct
             else if opt_file_type opts \<noteq> [] then opt_file_type opts
             else ''application/octet-stream''
         | None \<Rightarrow> if opt_file_type opts \<noteq> [] then opt_file_type opts
             else ''application/octet-stream''),
      metadata = opt_metadata opts,
      token = opt_token opts,
      offset = (case opt_offset opts of Some n \<Rightarrow> n | None \<Rightarrow> 0),
      chunkSize = (case opt_chunkSize opts of Some n \<Rightarrow> n | None \<Rightarrow> 0),
      retryHandler = new_RetryHandler,
      url = Some (opt_url opts),
      httpMethod =
        (case opt_fileId opts of Some fid \<Rightarrow> if fid \<noteq> [] then ''PUT'' else ''POST''
         | None \<Rightarrow> ''POST'')\<rparr>"

text \<open>
  \<^verbatim>\<open>upload\<close>: the initiation request, with the inline function as \<^verbatim>\<open>onload\<close> and
  \<^verbatim>\<open>onUploadError_\<close> as \<^verbatim>\<open>onerror\<close>.
\<close>

definition upload :: "MediaUploader \<Rightarrow> effect list" where
  "upload s =
     [Send \<lparr>req_method = httpMethod s, req_url = url s,
        req_headers =
          [(''Authorization'', ''Bearer '' @ token s),
           (''Content-Type'', ''application/json''),
           (''X-Upload-Content-Length'', toString (file_size s)),
           (''X-Upload-Content-Type'', contentType s)],
        onload = Upload_onload, onerror = OnUploadError,
        body = Metadata (metadata s)\<rparr>]"

text \<open>
  \<^verbatim>\<open>sendFile_ = function () {
    var content = this.file;
    var end = this.file.size;
    if (this.offset || this.chunkSize) {
      if (this.chunkSize) { end = Math.min(this.offset + this.chunkSize, this.file.size); }
      content = content.slice(this.offset, end);
    }
    ... xhr.open('PUT', this.url, true);
    xhr.setRequestHeader('Content-Type', this.contentType);
    xhr.setRequestHeader('Content-Range',
      'bytes ' + this.offset + '-' + (end - 1) + '/' + this.file.size);
    xhr.setRequestHeader('X-Upload-Content-Type', this.file.type);
    xhr.onload = this.onContentUploadSuccess_.bind(this);
    xhr.onerror = this.onContentUploadError_.bind(this);
    xhr.send(content); }\<close>
\<close>

definition sendFile :: "MediaUploader \<Rightarrow> effect list" where
  "sendFile s =
     (let (content, end') =
        (if offset s \<noteq> 0 \<or> chunkSize s \<noteq> 0 then
           (let end' =
              (if chunkSize s \<noteq> 0 then min (offset s + chunkSize s) (file_size s)
               else file_size s)
            in (Slice (offset s) end', end'))
         else (WholeFile, file_size s))
      in [Send \<lparr>req_method = ''PUT'', req_url = url s,
            req_headers =
              [(''Content-Type'', contentType s),
               (''Content-Range'',
                  ''bytes '' @ toString (offset s) @ ''-'' @ toString (end' - 1) @ ''/''
                    @ toString (file_size s)),
               (''X-Upload-Content-Type'', file_type s)],
            onload = OnContentUploadSuccess, onerror = OnContentUploadError,
            body = content\<rparr>])"

text \<open>
  \<^verbatim>\<open>resume_ = function () {
    ... xhr.open('PUT', this.url, true);
    xhr.setRequestHeader('Content-Range', 'bytes */' + this.file.size);
    xhr.setRequestHeader('X-Upload-Content-Type', this.file.type);
    xhr.onload = this.onContentUploadSuccess_.bind(this);
    xhr.onerror = this.onContentUploadError_.bind(this);
    xhr.send(); }\<close>
\<close>

definition resume :: "MediaUploader \<Rightarrow> effect list" where
  "resume s =
     [Send \<lparr>req_method = ''PUT'', req_url = url s,
        req_headers =
          [(''Content-Range'', ''bytes */'' @ toString (file_size s)),
           (''X-Upload-Content-Type'', file_type s)],
        onload = OnContentUploadSuccess, onerror = OnContentUploadError,
        body = NoBody\<rparr>]"

text \<open>
  \<^verbatim>\<open>extractRange_ = function (xhr) {
    var range = xhr.getResponseHeader('Range');
    if (range) { this.offset = parseInt(range.match(/\d+/g).pop(), 10) + 1; } }\<close>

  A header that is absent (\<^verbatim>\<open>null\<close>) or empty is falsy. \<^verbatim>\<open>match\<close> returns \<^verbatim>\<open>null\<close> on a
  header without a digit, and \<^verbatim>\<open>null.pop()\<close> throws a \<^verbatim>\<open>TypeError\<close> before anything
  is assigned.
\<close>

definition extractRange :: "MediaUploader \<Rightarrow> xhr \<Rightarrow> error + MediaUploader" where
  "extractRange s x =
     (case getResponseHeader x ''Range'' of
        None \<Rightarrow> Inr s
      | Some rng \<Rightarrow>
          if rng = [] then Inr s
          else (case match_digits rng of
                  None \<Rightarrow> Inl TypeError
                | Some ms \<Rightarrow> Inr (s\<lparr>offset := parseInt (last ms) + 1\<rparr>)))"

text \<open>
  \<^verbatim>\<open>onContentUploadSuccess_ = function (e) {
    if (e.target.status == 200 || e.target.status == 201) {
      this.onComplete(e.target.response);
    } else if (e.target.status == 308) {
      this.extractRange_(e.target);
      this.retryHandler.reset();
      this.sendFile_();
    } }\<close>
\<close>

definition onContentUploadSuccess ::
  "MediaUploader \<Rightarrow> xhr \<Rightarrow> error + MediaUploader \<times> effect list" where
  "onContentUploadSuccess s e =
     (if status e = 200 \<or> status e = 201 then Inr (s, [OnComplete (response e)])
      else if status e = 308 then
        (case extractRange s e of
           Inl err \<Rightarrow> Inl err
         | Inr s1 \<Rightarrow>
             (let s2 = s1\<lparr>retryHandler := reset (retryHandler s1)\<rparr>
              in Inr (s2, sendFile s2)))
      else Inr (s, []))"

text \<open>
  \<^verbatim>\<open>onContentUploadError_ = function (e) {
    if (e.target.status && e.target.status < 500) {
      this.onError(e.target.response);
    } else {
      this.retryHandler.retry(this.resume_.bind(this));
    } }\<close>
\<close>

definition onContentUploadError :: "MediaUploader \<Rightarrow> xhr \<Rightarrow> rat \<Rightarrow> MediaUploader \<times> effect list" where
  "onContentUploadError s e rnd =
     (if status e \<noteq> 0 \<and> status e < 500 then (s, [OnError (response e)])
      else (let (h, effs) = retry (retryHandler s) Resume rnd
            in (s\<lparr>retryHandler := h\<rparr>, effs)))"

text \<open>\<^verbatim>\<open>onUploadError_ = function (e) { this.onError(e.target.response); }\<close>\<close>

definition onUploadError :: "MediaUploader \<Rightarrow> xhr \<Rightarrow> effect list" where
  "onUploadError s e = [OnError (response e)]"

text \<open>
  The \<^verbatim>\<open>onload\<close> of the initiation request:
  \<^verbatim>\<open>function (e) {
    if (e.target.status < 400) {
      var location = e.target.getResponseHeader('Location');
      this.url = location;
      this.sendFile_();
    } else { this.onUploadError_(e); } }\<close>
\<close>

definition upload_onload :: "MediaUploader \<Rightarrow> xhr \<Rightarrow> MediaUploader \<times> effect list" where
  "upload_onload s e =
     (if status e < 400 then
        (let s' = s\<lparr>url := getResponseHeader e ''Location''\<rparr> in (s', sendFile s'))
      else (s, onUploadError s e))"

subsection \<open>The session as the events drive it\<close>

text \<open>
  An event of a session: a request's \<^verbatim>\<open>load\<close> or \<^verbatim>\<open>error\<close> event, which calls the
  handler bound to it with the request as \<^verbatim>\<open>e.target\<close>, or a timer that fires and calls
  its callback. \<open>step s rnd ev\<close> is the session after the event and what the handler did;
  \<open>rnd\<close> is what \<^verbatim>\<open>Math.random()\<close> returns if the handler calls it. An exception leaves
  the handler; the session stays as it was when the exception was thrown.
\<close>

datatype event = Xhr handler xhr | Timer callback

text \<open>
  How a request's outcome becomes an event. An \<^verbatim>\<open>XMLHttpRequest\<close> fires \<^verbatim>\<open>load\<close> when
  the server's response has arrived, whatever its status, and \<^verbatim>\<open>error\<close> only when the
  request failed on the network and there is no response: then the status is 0, the body
  is empty and there are no headers. So the function bound to \<^verbatim>\<open>onload\<close> is called for
  every response, and the one bound to \<^verbatim>\<open>onerror\<close> for network failures alone.
\<close>

datatype outcome = Response xhr | NetworkError

fun deliver :: "request \<Rightarrow> outcome \<Rightarrow> event" where
  "deliver r (Response x) = Xhr (onload r) x"
| "deliver r NetworkError = Xhr (onerror r) \<lparr>status = 0, headers = Map.empty, response = []\<rparr>"

fun step :: "MediaUploader \<Rightarrow> rat \<Rightarrow> event \<Rightarrow> MediaUploader \<times> effect list" where
  "step s rnd (Xhr Upload_onload e) = upload_onload s e"
| "step s rnd (Xhr OnUploadError e) = (s, onUploadError s e)"
| "step s rnd (Xhr OnContentUploadSuccess e) =
     (case onContentUploadSuccess s e of Inl err \<Rightarrow> (s, []) | Inr r \<Rightarrow> r)"
| "step s rnd (Xhr OnContentUploadError e) = onContentUploadError s e rnd"
| "step s rnd (Timer Resume) = (s, resume s)"

fun run :: "MediaUploader \<Rightarrow> (rat \<times> event) list \<Rightarrow> MediaUploader" where
  "run s [] = s"
| "run s ((rnd, ev) # evs) = run (fst (step s rnd ev)) evs"

text \<open>The effects of a run, in order.\<close>

fun effects :: "MediaUploader \<Rightarrow> (rat \<times> event) list \<Rightarrow> effect list" where
  "effects s [] = []"
| "effects s ((rnd, ev) # evs) = snd (step s rnd ev) @ effects (fst (step s rnd ev)) evs"

text \<open>
  The byte range a content transfer asks to send of a file of \<open>sz\<close> bytes, first byte
  included and last excluded: the whole file, or the bounds it gives to \<^verbatim>\<open>slice\<close> (which
  are the bytes sent whenever \<open>0 \<le> start \<le> end \<le> sz\<close>; the blob clamps other bounds).
\<close>

fun byte_range :: "int \<Rightarrow> content \<Rightarrow> (int \<times> int) option" where
  "byte_range sz WholeFile = Some (0, sz)"
| "byte_range sz (Slice start end') = Some (start, end')"
| "byte_range sz (Metadata m) = None"
| "byte_range sz NoBody = None"

text \<open>The requests among effects, and the initiation requests among them.\<close>

fun is_send :: "effect \<Rightarrow> bool" where
  "is_send (Send r) = True"
| "is_send eff = False"

fun is_initiation :: "effect \<Rightarrow> bool" where
  "is_initiation (Send r) = (onload r = Upload_onload)"
| "is_initiation eff = False"

text \<open>
  A server that keeps to the protocol: the number a \<^verbatim>\<open>308\<close> response's \<^verbatim>\<open>Range\<close> header
  ends with, plus one, is neither below the session's offset nor above the file's size.
\<close>

fun in_bounds :: "MediaUploader \<Rightarrow> event \<Rightarrow> bool" where
  "in_bounds s (Xhr OnContentUploadSuccess e) =
     (if status e = 308 then
        (case getResponseHeader e ''Range'' of
           None \<Rightarrow> True
         | Some rng \<Rightarrow>
             (case match_digits rng of
                None \<Rightarrow> True
              | Some ms \<Rightarrow>
                  offset s \<le> parseInt (last ms) + 1 \<and> parseInt (last ms) + 1 \<le> file_size s))
      else True)"
| "in_bounds s ev = True"

fun all_in_bounds :: "MediaUploader \<Rightarrow> (rat \<times> event) list \<Rightarrow> bool" where
  "all_in_bounds s [] = True"
| "all_in_bounds s ((rnd, ev) # evs) = (in_bounds s ev \<and> all_in_bounds (fst (step s rnd ev)) evs)"

subsection \<open>UploadVideo: polling for the video's status\<close>

text \<open>\<^verbatim>\<open>var STATUS_POLLING_INTERVAL_MILLIS = 60 * 1000;\<close>\<close>

definition STATUS_POLLING_INTERVAL_MILLIS :: int where
  "STATUS_POLLING_INTERVAL_MILLIS = 60 * 1000"

text \<open>The field of an \<^verbatim>\<open>UploadVideo\<close> that the poller reads.\<close>

record UploadVideo =
  videoId :: string

text \<open>
  The response of \<^verbatim>\<open>gapi.client.request\<close>: one with an \<^verbatim>\<open>error\<close> (its message), or one
  with \<^verbatim>\<open>items\<close>, each with its \<^verbatim>\<open>status.uploadStatus\<close> and \<^verbatim>\<open>player.embedHtml\<close>.
\<close>

record item =
  uploadStatus :: string
  embedHtml :: string

datatype gapi_response = ErrorResponse string | ItemsResponse "item list"

text \<open>
  What the poller does to the outside: a request to the API (path and parameters), a line
  on the console, \<^verbatim>\<open>$(selector).append(html)\<close>, \<^verbatim>\<open>$(selector).val(v).trigger(event)\<close>, and
  \<^verbatim>\<open>setTimeout(this.pollForVideoStatus.bind(this), ms)\<close>.
\<close>

datatype poll_effect =
    GapiRequest string "(string \<times> string) list"
  | ConsoleLog string
  | ConsoleLogThis
  | Append string string
  | ValTrigger string string string
  | SetTimeoutPoll int

text \<open>\<^verbatim>\<open>pollForVideoStatus\<close>: the request it sends.\<close>

definition pollForVideoStatus :: "UploadVideo \<Rightarrow> poll_effect list" where
  "pollForVideoStatus v =
     [GapiRequest ''/youtube/v3/videos'' [(''part'', ''status,player''), (''id'', videoId v)]]"

text \<open>
  The \<^verbatim>\<open>callback\<close> of that request:
  \<^verbatim>\<open>function (response) {
    if (response.error) {
      console.log(response.error.message);
      setTimeout(this.pollForVideoStatus.bind(this), STATUS_POLLING_INTERVAL_MILLIS);
    } else {
      var uploadStatus = response.items[0].status.uploadStatus;
      switch (uploadStatus) {
        case 'uploaded':
          $('#post-upload-status').append('<li>Upload status: ' + uploadStatus + '</li>');
          const e = $.Event('paste');
          console.log(this)
          $('.note-video-url').val('https://www.youtube.com/watch?v=' + this.videoId).trigger(e);
          setTimeout(this.pollForVideoStatus.bind(this), STATUS_POLLING_INTERVAL_MILLIS);
          break;
        case 'processed':
          $('#player').append(response.items[0].player.embedHtml);
          $('#post-upload-status').append('<li>Final status.</li>');
          break;
        default:
          $('#post-upload-status').append('<li>Transcoding failed.</li>');
          break;
      } } }\<close>

  \<^verbatim>\<open>response.items[0]\<close> of an empty list is \<^verbatim>\<open>undefined\<close>, and reading its \<^verbatim>\<open>status\<close>
  throws a \<^verbatim>\<open>TypeError\<close>.
\<close>

definition pollForVideoStatus_callback :: "UploadVideo \<Rightarrow> gapi_response \<Rightarrow> error + poll_effect list" where
  "pollForVideoStatus_callback v resp =
     (case resp of
        ErrorResponse message \<Rightarrow>
          Inr [ConsoleLog message, SetTimeoutPoll STATUS_POLLING_INTERVAL_MILLIS]
      | ItemsResponse [] \<Rightarrow> Inl TypeError
      | ItemsResponse (it # its) \<Rightarrow>
          (let uploadStatus' = uploadStatus it in
           if uploadStatus' = ''uploaded'' then
             Inr [Append ''#post-upload-status'' (''<li>Upload status: '' @ uploadStatus' @ ''</li>''),
                  ConsoleLogThis,
                  ValTrigger ''.note-video-url'' (''https://www.youtube.com/watch?v='' @ videoId v)
                    ''paste'',
                  SetTimeoutPoll STATUS_POLLING_INTERVAL_MILLIS]
           else if uploadStatus' = ''processed'' then
             Inr [Append ''#player'' (embedHtml it),
                  Append ''#post-upload-status'' ''<li>Final status.</li>'']
           else Inr [Append ''#post-upload-status'' ''<li>Transcoding failed.</li>'']))"

text \<open>
  The timers a callback starts (their delays), the requests it sends, and what it shows
  the user (what it appends to the page or writes into a field of it).
\<close>

fun timeouts :: "poll_effect list \<Rightarrow> int list" where
  "timeouts [] = []"
| "timeouts (SetTimeoutPoll ms # effs) = ms # timeouts effs"
| "timeouts (eff # effs) = timeouts effs"

fun requests :: "poll_effect list \<Rightarrow> poll_effect list" where
  "requests [] = []"
| "requests (GapiRequest path params # effs) = GapiRequest path params # requests effs"
| "requests (eff # effs) = requests effs"

fun shown :: "poll_effect list \<Rightarrow> poll_effect list" where
  "shown [] = []"
| "shown (Append sel html # effs) = Append sel html # shown effs"
| "shown (ValTrigger sel v ev # effs) = ValTrigger sel v ev # shown effs"
| "shown (eff # effs) = shown effs"

subsection \<open>An example\<close>

text \<open>
  An uploader for a file of 10 bytes, sent in chunks of 4 bytes, as the constructor makes
  it; and a response with a given status, headers and body.
\<close>

definition example_uploader :: MediaUploader where
  "example_uploader =
     new_MediaUploader
       \<lparr>opt_file_size = 10, opt_file_type = ''video/mp4'', opt_contentType = None,
        opt_metadata = ''{}'', opt_token = ''token'', opt_offset = None,
        opt_chunkSize = Some 4, opt_url = ''https://upload'', opt_fileId = None\<rparr>"

definition reply :: "nat \<Rightarrow> (string \<times> string) list \<Rightarrow> string \<Rightarrow> xhr" where
  "reply st hs b = \<lparr>status = st, headers = map_of hs, response = b\<rparr>"

text \<open>
  The first content transfer of the example: what \<^verbatim>\<open>sendFile_\<close> sends for its uploader
  once the initiation has been answered with the session's URL \<^verbatim>\<open>https://session\<close>.
\<close>

definition example_transfer :: request where
  "example_transfer =
     \<lparr>req_method = ''PUT'', req_url = Some ''https://session'',
      req_headers =
        [(''Content-Type'', ''video/mp4''),
         (''Content-Range'', ''bytes 0-3/10''),
         (''X-Upload-Content-Type'', ''video/mp4'')],
      onload = OnContentUploadSuccess, onerror = OnContentUploadError,
      body = Slice 0 4\<rparr>"

section \<open>Properties\<close>

subsection \<open>Decimal numbers and the Range header\<close>

lemma is_digit_digit_char: "d < 10 \<Longrightarrow> is_digit (digit_char d)"
  by (simp add: is_digit_def digit_char_def)

lemma of_char_digit_char: "d < 10 \<Longrightarrow> (of_char (digit_char d) :: nat) = 48 + d"
  by (simp add: digit_char_def)

lemma string_of_nat_digits: "\<forall>c \<in> set (string_of_nat n). is_digit c"
proof (induction n rule: string_of_nat.induct)
  case (1 n)
  show ?case
  proof (cases "n < 10")
    case True
    then show ?thesis by (simp add: string_of_nat.simps[of n] is_digit_digit_char)
  next
    case False
    with 1 show ?thesis by (simp add: string_of_nat.simps[of n] is_digit_digit_char)
  qed
qed

lemma string_of_nat_nonempty: "string_of_nat n \<noteq> []"
  by (subst string_of_nat.simps) simp

lemma parseInt_snoc: "parseInt (ds @ [c]) = 10 * parseInt ds + (int (of_char c) - 48)"
  by (simp add: parseInt_def)

text \<open>Reading a number back from its decimal digits gives the number.\<close>

lemma parseInt_string_of_nat: "parseInt (string_of_nat n) = int n"
proof (induction n rule: string_of_nat.induct)
  case (1 n)
  show ?case
  proof (cases "n < 10")
    case True
    then show ?thesis by (simp add: string_of_nat.simps[of n] parseInt_def of_char_digit_char)
  next
    case False
    with 1 have "parseInt (string_of_nat (n div 10)) = int (n div 10)" by simp
    moreover have "10 * int (n div 10) + int (n mod 10) = int n"
      by (simp add: zdiv_int zmod_int)
    ultimately show ?thesis using False
      by (simp add: string_of_nat.simps[of n] parseInt_snoc of_char_digit_char)
  qed
qed

lemma scan_digits: "\<forall>c \<in> set ds. is_digit c \<Longrightarrow> scan cur (ds @ rest) = scan (cur @ ds) rest"
  by (induction ds arbitrary: cur) simp_all

lemma scan_no_digit:
  "\<forall>c \<in> set q. \<not> is_digit c \<Longrightarrow> scan cur q = (if cur = [] then [] else [cur])"
  by (induction q arbitrary: cur) simp_all

lemma scan_Nil_iff: "scan cur cs = [] \<longleftrightarrow> cur = [] \<and> (\<forall>c \<in> set cs. \<not> is_digit c)"
  by (induction cs arbitrary: cur) auto

text \<open>Every match is a run of digits and is not empty, so \<open>parseInt\<close> is given digits only.\<close>

lemma scan_runs:
  "\<forall>c \<in> set cur. is_digit c \<Longrightarrow> m \<in> set (scan cur cs) \<Longrightarrow> m \<noteq> [] \<and> (\<forall>c \<in> set m. is_digit c)"
proof (induction cs arbitrary: cur)
  case Nil
  then show ?case by (auto split: if_splits)
next
  case (Cons a cs)
  show ?case
  proof (cases "is_digit a")
    case True
    with Cons.prems have "m \<in> set (scan (cur @ [a]) cs)" by simp
    moreover have "\<forall>c \<in> set (cur @ [a]). is_digit c" using True Cons.prems(1) by simp
    ultimately show ?thesis using Cons.IH[of "cur @ [a]"] by blast
  next
    case False
    with Cons.prems have "m = cur \<and> cur \<noteq> [] \<or> m \<in> set (scan [] cs)"
      by (auto split: if_splits)
    then show ?thesis using Cons.IH[of "[]"] Cons.prems(1) by auto
  qed
qed

text \<open>The last match of a string that ends with a number is that number.\<close>

lemma scan_last:
  assumes "ds \<noteq> []" "\<forall>c \<in> set ds. is_digit c" "\<forall>c \<in> set q. \<not> is_digit c"
    and "p = [] \<longrightarrow> cur = []" "p \<noteq> [] \<longrightarrow> \<not> is_digit (last p)"
  shows "scan cur (p @ ds @ q) \<noteq> [] \<and> last (scan cur (p @ ds @ q)) = ds"
  using assms(4,5)
proof (induction p arbitrary: cur)
  case Nil
  then have "cur = []" by simp
  with assms(1-3) show ?case by (simp add: scan_digits scan_no_digit)
next
  case (Cons c p)
  show ?case
  proof (cases "p = []")
    case True
    with Cons.prems have nd: "\<not> is_digit c" by simp
    have "scan [] (ds @ q) = [ds]" using assms(1-3) by (simp add: scan_digits scan_no_digit)
    with nd True show ?thesis by simp
  next
    case False
    with Cons.prems have lp: "\<not> is_digit (last p)" by simp
    have IH: "scan cur' (p @ ds @ q) \<noteq> [] \<and> last (scan cur' (p @ ds @ q)) = ds" for cur'
      using Cons.IH[of cur'] False lp by simp
    show ?thesis using IH[of "cur @ [c]"] IH[of "[]"] by simp
  qed
qed

lemma match_digits_last:
  assumes "ds \<noteq> []" "\<forall>c \<in> set ds. is_digit c" "p = [] \<or> \<not> is_digit (last p)"
  shows "\<exists>ms. match_digits (p @ ds) = Some ms \<and> last ms = ds"
proof -
  have "scan [] (p @ ds @ []) \<noteq> [] \<and> last (scan [] (p @ ds @ [])) = ds"
    using assms by (intro scan_last) auto
  then obtain m ms where "scan [] (p @ ds) = m # ms" "last (m # ms) = ds"
    by (cases "scan [] (p @ ds)") auto
  then show ?thesis by (simp add: match_digits_def)
qed

lemma match_digits_None_iff: "match_digits h = None \<longleftrightarrow> (\<forall>c \<in> set h. \<not> is_digit c)"
proof (cases "scan [] h")
  case Nil
  then show ?thesis using scan_Nil_iff[of "[]" h] by (simp add: match_digits_def)
next
  case (Cons m ms)
  then show ?thesis using scan_Nil_iff[of "[]" h] by (simp add: match_digits_def)
qed

lemma extractRange_number:
  assumes "getResponseHeader e ''Range'' = Some (p @ string_of_nat hi)"
    and "p = [] \<or> \<not> is_digit (last p)"
  shows "extractRange s e = Inr (s\<lparr>offset := int hi + 1\<rparr>)"
proof -
  obtain ms where ms: "match_digits (p @ string_of_nat hi) = Some ms" "last ms = string_of_nat hi"
    using match_digits_last[OF string_of_nat_nonempty string_of_nat_digits assms(2)] by blast
  have "extractRange s e =
      (case match_digits (p @ string_of_nat hi) of
         None \<Rightarrow> Inl TypeError
       | Some ms \<Rightarrow> Inr (s\<lparr>offset := parseInt (last ms) + 1\<rparr>))"
    unfolding extractRange_def using assms(1) by (simp add: string_of_nat_nonempty)
  also have "\<dots> = Inr (s\<lparr>offset := int hi + 1\<rparr>)"
    unfolding ms(1) by (simp add: ms(2) parseInt_string_of_nat)
  finally show ?thesis .
qed

text \<open>What \<^verbatim>\<open>extractRange_\<close> does, by the header it finds.\<close>

lemma extractRange_cases:
  "extractRange s e = Inl TypeError \<and>
     (\<exists>h. getResponseHeader e ''Range'' = Some h \<and> h \<noteq> [] \<and> (\<forall>c \<in> set h. \<not> is_digit c)) \<or>
   extractRange s e = Inr s \<and>
     (getResponseHeader e ''Range'' = None \<or> getResponseHeader e ''Range'' = Some []) \<or>
   (\<exists>h ms. getResponseHeader e ''Range'' = Some h \<and> match_digits h = Some ms \<and>
      extractRange s e = Inr (s\<lparr>offset := parseInt (last ms) + 1\<rparr>))"
  by (auto simp: extractRange_def match_digits_None_iff[symmetric] split: option.splits)

subsection \<open>The retry handler\<close>

lemma getRandomInt_bounds:
  "is_random rnd \<Longrightarrow> 0 \<le> getRandomInt rnd 0 1000 \<and> getRandomInt rnd 0 1000 \<le> 1000"
  unfolding is_random_def getRandomInt_def
  by (simp add: le_floor_iff floor_le_iff)

lemma calls_snoc: "calls h (cs @ [c]) = call (calls h cs) c"
  by (simp add: calls_def)

lemma maxInterval_calls: "maxInterval (calls h cs) = maxInterval h"
proof (induction cs rule: rev_induct)
  case Nil
  then show ?case by (simp add: calls_def)
next
  case (snoc c cs)
  then show ?case by (cases c) (simp_all add: calls_snoc retry_def reset_def)
qed

lemma interval_calls:
  "\<forall>c \<in> set cs. random_call c \<Longrightarrow>
   1000 \<le> interval (calls new_RetryHandler cs) \<and> interval (calls new_RetryHandler cs) \<le> 60000"
proof (induction cs rule: rev_induct)
  case Nil
  then show ?case by (simp add: calls_def new_RetryHandler_def)
next
  case (snoc c cs)
  then have IH: "1000 \<le> interval (calls new_RetryHandler cs)"
    "interval (calls new_RetryHandler cs) \<le> 60000"
    by simp_all
  have mx: "maxInterval (calls new_RetryHandler cs) = 60000"
    by (simp add: maxInterval_calls new_RetryHandler_def)
  show ?case
  proof (cases c)
    case (Retry fn rnd)
    with snoc.prems have "is_random rnd" by simp
    from getRandomInt_bounds[OF this] IH mx show ?thesis
      by (simp add: Retry calls_snoc retry_def nextInterval_def)
  next
    case Reset
    then show ?thesis by (simp add: calls_snoc reset_def)
  qed
qed

subsection \<open>The session\<close>

text \<open>The request \<^verbatim>\<open>sendFile_\<close> sends, with the two tests of the source merged.\<close>

lemma sendFile_request:
  "sendFile s =
     [Send \<lparr>req_method = ''PUT'', req_url = url s,
        req_headers =
          [(''Content-Type'', contentType s),
           (''Content-Range'',
              ''bytes '' @ toString (offset s) @ ''-''
                @ toString ((if chunkSize s = 0 then file_size s
                             else min (offset s + chunkSize s) (file_size s)) - 1)
                @ ''/'' @ toString (file_size s)),
           (''X-Upload-Content-Type'', file_type s)],
        onload = OnContentUploadSuccess, onerror = OnContentUploadError,
        body = (if offset s \<noteq> 0 \<or> chunkSize s \<noteq> 0
                then Slice (offset s)
                  (if chunkSize s = 0 then file_size s
                   else min (offset s + chunkSize s) (file_size s))
                else WholeFile)\<rparr>]"
  by (simp add: sendFile_def Let_def)

lemma step_not_initiation: "eff \<in> set (snd (step s rnd ev)) \<Longrightarrow> \<not> is_initiation eff"
proof (cases ev)
  case (Xhr h e)
  assume m: "eff \<in> set (snd (step s rnd ev))"
  show ?thesis
  proof (cases h)
    case Upload_onload
    with m Xhr show ?thesis
      by (auto simp: upload_onload_def onUploadError_def sendFile_request Let_def split: if_splits)
  next
    case OnUploadError
    with m Xhr show ?thesis by (auto simp: onUploadError_def)
  next
    case OnContentUploadSuccess
    with m Xhr show ?thesis
      by (auto simp: onContentUploadSuccess_def sendFile_request Let_def split: if_splits sum.splits)
  next
    case OnContentUploadError
    with m Xhr show ?thesis
      by (auto simp: onContentUploadError_def retry_def split: if_splits)
  qed
next
  case (Timer cb)
  assume m: "eff \<in> set (snd (step s rnd ev))"
  with Timer show ?thesis by (cases cb) (auto simp: resume_def)
qed

lemma step_file_size: "file_size (fst (step s rnd ev)) = file_size s"
proof (cases ev)
  case (Xhr h e)
  show ?thesis
  proof (cases h)
    case OnContentUploadSuccess
    with Xhr extractRange_cases[of s e] show ?thesis
      by (auto simp: onContentUploadSuccess_def Let_def)
  qed (simp_all add: Xhr upload_onload_def onContentUploadError_def Let_def split_beta)
next
  case (Timer cb)
  then show ?thesis by (cases cb) simp
qed

lemma step_offset:
  assumes "in_bounds s ev" "offset s \<le> file_size s"
  shows "offset s \<le> offset (fst (step s rnd ev)) \<and> offset (fst (step s rnd ev)) \<le> file_size s"
proof (cases ev)
  case (Xhr h e)
  show ?thesis
  proof (cases h)
    case OnContentUploadSuccess
    with Xhr assms extractRange_cases[of s e] show ?thesis
      by (auto simp: onContentUploadSuccess_def Let_def split: if_splits)
  qed (simp_all add: assms Xhr upload_onload_def onContentUploadError_def Let_def split_beta)
next
  case (Timer cb)
  with assms show ?thesis by (cases cb) simp
qed

lemma run_append: "run s (evs1 @ evs2) = run (run s evs1) evs2"
  by (induction s evs1 rule: run.induct) simp_all

lemma all_in_bounds_append:
  "all_in_bounds s (evs1 @ evs2) \<longleftrightarrow> all_in_bounds s evs1 \<and> all_in_bounds (run s evs1) evs2"
  by (induction s evs1 rule: run.induct) auto

lemma run_offset:
  "all_in_bounds s evs \<Longrightarrow> offset s \<le> file_size s \<Longrightarrow>
   offset s \<le> offset (run s evs) \<and> offset (run s evs) \<le> file_size s \<and>
   file_size (run s evs) = file_size s"
proof (induction s evs rule: run.induct)
  case (1 s)
  then show ?case by simp
next
  case (2 s rnd ev evs)
  from 2 have ib: "in_bounds s ev" by simp
  note st = step_offset[OF ib "2.prems"(2), of rnd] step_file_size[of s rnd ev]
  with 2 show ?case by auto
qed

text \<open>The example session, evaluated.\<close>

lemma example_uploader_fields:
  "file_size example_uploader = 10" "file_type example_uploader = ''video/mp4''"
  "contentType example_uploader = ''video/mp4''" "offset example_uploader = 0"
  "chunkSize example_uploader = 4" "url example_uploader = Some ''https://upload''"
  "retryHandler example_uploader = \<lparr>interval = 1000, maxInterval = 60000\<rparr>"
  by (simp_all add: example_uploader_def new_MediaUploader_def new_RetryHandler_def)

lemma toString_examples:
  "toString 0 = ''0''" "toString 3 = ''3''" "toString 4 = ''4''" "toString 7 = ''7''"
  "toString 10 = ''10''" "toString (- 1) = ''-1''"
  by code_simp+

text \<open>
  What the \<^verbatim>\<open>onload\<close> handler of a content transfer does with a 308 response whose
  \<^verbatim>\<open>Range\<close> header ends with a number \<open>hi\<close> (as \<^verbatim>\<open>bytes=0-hi\<close> does: anything that does
  not end with a digit, then \<open>hi\<close> in decimal; the source's numbers are the model's for
  \<open>hi\<close> below \<open>2 ^ 53\<close>), and with one that has no \<^verbatim>\<open>Range\<close> header.
\<close>

lemma on_308_with_range:
  assumes "status e = 308"
  shows "(getResponseHeader e ''Range'' = Some (p @ string_of_nat hi) \<and>
            (p = [] \<or> \<not> is_digit (last p)) \<longrightarrow>
          (\<exists>s'. step s rnd (Xhr OnContentUploadSuccess e) = (s', sendFile s') \<and>
             s' = s\<lparr>offset := int hi + 1, retryHandler := reset (retryHandler s)\<rparr> \<and>
             offset s' = int hi + 1 \<and> interval (retryHandler s') = 1000)) \<and>
         (getResponseHeader e ''Range'' = None \<longrightarrow>
          (\<exists>s'. step s rnd (Xhr OnContentUploadSuccess e) = (s', sendFile s') \<and>
             s' = s\<lparr>retryHandler := reset (retryHandler s)\<rparr> \<and>
             offset s' = offset s \<and> interval (retryHandler s') = 1000))"
proof (intro conjI impI)
  assume "getResponseHeader e ''Range'' = Some (p @ string_of_nat hi) \<and>
            (p = [] \<or> \<not> is_digit (last p))"
  then have "extractRange s e = Inr (s\<lparr>offset := int hi + 1\<rparr>)"
    by (simp add: extractRange_number)
  with assms show "\<exists>s'. step s rnd (Xhr OnContentUploadSuccess e) = (s', sendFile s') \<and>
             s' = s\<lparr>offset := int hi + 1, retryHandler := reset (retryHandler s)\<rparr> \<and>
             offset s' = int hi + 1 \<and> interval (retryHandler s') = 1000"
    by (simp add: onContentUploadSuccess_def Let_def reset_def)
next
  assume "getResponseHeader e ''Range'' = None"
  then have "extractRange s e = Inr s" by (simp add: extractRange_def)
  with assms show "\<exists>s'. step s rnd (Xhr OnContentUploadSuccess e) = (s', sendFile s') \<and>
             s' = s\<lparr>retryHandler := reset (retryHandler s)\<rparr> \<and>
             offset s' = offset s \<and> interval (retryHandler s') = 1000"
    by (simp add: onContentUploadSuccess_def Let_def reset_def)
qed

text \<open>
  What \<^verbatim>\<open>onContentUploadError_\<close> does, by the status it finds, and what \<^verbatim>\<open>resume_\<close>
  sends when the timer fires: the probe, bound to the handlers of a content transfer.
\<close>

lemma onContentUploadError_cases:
  "(status e \<noteq> 0 \<and> status e < 500 \<longrightarrow>
      step s rnd (Xhr OnContentUploadError e) = (s, [OnError (response e)])) \<and>
   (status e = 0 \<or> 500 \<le> status e \<longrightarrow>
      step s rnd (Xhr OnContentUploadError e) =
        (s\<lparr>retryHandler := fst (retry (retryHandler s) Resume rnd)\<rparr>,
         [SetTimeout Resume (interval (retryHandler s))])) \<and>
   step s' rnd' (Timer Resume) =
     (s', [Send \<lparr>req_method = ''PUT'', req_url = url s',
             req_headers =
               [(''Content-Range'', ''bytes */'' @ toString (file_size s')),
                (''X-Upload-Content-Type'', file_type s')],
             onload = OnContentUploadSuccess, onerror = OnContentUploadError,
             body = NoBody\<rparr>])"
  by (auto simp: onContentUploadError_def retry_def resume_def)

subsection \<open>The claims\<close>

text \<open>
  C1 fails on the code for a \<^verbatim>\<open>Range\<close> header that holds no number. (Where the header
  ends with a number, or is absent, the handler does what the claim says: lemma
  \<open>on_308_with_range\<close>.) For a 308 response with the header \<^verbatim>\<open>Range: bytes\<close>,
  \<^verbatim>\<open>range.match(/\d+/g)\<close> is \<^verbatim>\<open>null\<close> and \<^verbatim>\<open>null.pop()\<close> throws a \<^verbatim>\<open>TypeError\<close> inside
  \<^verbatim>\<open>extractRange_\<close>, so \<^verbatim>\<open>onContentUploadSuccess_\<close> is left before
  \<^verbatim>\<open>this.retryHandler.reset()\<close> and \<^verbatim>\<open>this.sendFile_()\<close> are reached. In the example, with
  the retry interval at 2500 after an earlier retry, the interval is not reset and no
  chunk is sent.
\<close>

theorem range_without_number_throws:
  "extractRange (example_uploader\<lparr>retryHandler := \<lparr>interval = 2500, maxInterval = 60000\<rparr>\<rparr>)
     (reply 308 [(''Range'', ''bytes'')] '''') = Inl TypeError \<and>
   onContentUploadSuccess
     (example_uploader\<lparr>retryHandler := \<lparr>interval = 2500, maxInterval = 60000\<rparr>\<rparr>)
     (reply 308 [(''Range'', ''bytes'')] '''') = Inl TypeError \<and>
   step (example_uploader\<lparr>retryHandler := \<lparr>interval = 2500, maxInterval = 60000\<rparr>\<rparr>) 0
     (deliver example_transfer (Response (reply 308 [(''Range'', ''bytes'')] ''''))) =
     (example_uploader\<lparr>retryHandler := \<lparr>interval = 2500, maxInterval = 60000\<rparr>\<rparr>, [])"
  by (simp add: example_transfer_def reply_def onContentUploadSuccess_def extractRange_def
      getResponseHeader_def match_digits_def is_digit_def)

text \<open>
  C2 fails on the code. \<^verbatim>\<open>onContentUploadError_\<close> does what the claim says (lemma
  \<open>onContentUploadError_cases\<close>), but \<^verbatim>\<open>sendFile_\<close> and \<^verbatim>\<open>resume_\<close> bind it to
  \<^verbatim>\<open>xhr.onerror\<close>, which is called for failures of the network only, with status 0. A
  response with status 404 or 503 arrives as a \<^verbatim>\<open>load\<close> event and is handled by
  \<^verbatim>\<open>onContentUploadSuccess_\<close>, which has branches for 200, 201 and 308 only: \<^verbatim>\<open>onError\<close>
  is not called and no probe is scheduled. (The \<^verbatim>\<open>onload\<close> of \<^verbatim>\<open>upload\<close> does hand a
  status of 400 or more to its error handler.) In the example the initiation is answered
  with the session's URL and the first content transfer is sent; when that transfer is
  answered with 404, or with 503, the session does nothing more. Only the failure of the
  network starts the timer of a retry.
\<close>

theorem http_error_response_ignored:
  "effects example_uploader
     [(0, Xhr Upload_onload (reply 200 [(''Location'', ''https://session'')] '''')),
      (1 / 2, deliver example_transfer (Response (reply 404 [] ''Not Found'')))] =
     [Send example_transfer] \<and>
   effects example_uploader
     [(0, Xhr Upload_onload (reply 200 [(''Location'', ''https://session'')] '''')),
      (1 / 2, deliver example_transfer (Response (reply 503 [] '''')))] =
     [Send example_transfer] \<and>
   effects example_uploader
     [(0, Xhr Upload_onload (reply 200 [(''Location'', ''https://session'')] '''')),
      (1 / 2, deliver example_transfer NetworkError)] =
     [Send example_transfer, SetTimeout Resume 1000]"
  by (simp add: upload_onload_def getResponseHeader_def sendFile_request example_uploader_fields
      toString_examples example_transfer_def reply_def onContentUploadSuccess_def
      onContentUploadError_def retry_def)

text \<open>
  C3: the request of a content transfer. Its body is the file from the offset to \<open>end\<close>,
  where \<open>end\<close> is the file's size when the chunk size is 0 and
  \<open>min (offset + chunkSize) size\<close> otherwise, and its \<^verbatim>\<open>Content-Range\<close> header is
  \<^verbatim>\<open>bytes {offset}-{end - 1}/{size}\<close>, the numbers in decimal.
\<close>

theorem sendFile_range:
  "\<exists>r. sendFile s = [Send r] \<and>
     byte_range (file_size s) (body r) =
       Some (offset s,
             if chunkSize s = 0 then file_size s
             else min (offset s + chunkSize s) (file_size s)) \<and>
     map_of (req_headers r) ''Content-Range'' =
       Some (''bytes '' @ toString (offset s) @ ''-''
             @ toString ((if chunkSize s = 0 then file_size s
                          else min (offset s + chunkSize s) (file_size s)) - 1)
             @ ''/'' @ toString (file_size s))"
  unfolding sendFile_request by simp

theorem sendFile_range_witness:
  "(\<exists>r. sendFile example_uploader = [Send r] \<and>
      byte_range 10 (body r) = Some (0, 4) \<and>
      map_of (req_headers r) ''Content-Range'' = Some ''bytes 0-3/10'') \<and>
   (\<exists>r. sendFile (example_uploader\<lparr>file_size := 0, chunkSize := 0\<rparr>) = [Send r] \<and>
      byte_range 0 (body r) = Some (0, 0) \<and>
      map_of (req_headers r) ''Content-Range'' = Some ''bytes 0--1/0'')"
  using sendFile_range[of example_uploader]
    sendFile_range[of "example_uploader\<lparr>file_size := 0, chunkSize := 0\<rparr>"]
  by (simp add: example_uploader_fields toString_examples)

text \<open>
  C4, as the spec states it, fails: the jitter \<^verbatim>\<open>getRandomInt_(0, 1000)\<close> adds is an integer
  from 0 to 1000 with both ends included. With \<^verbatim>\<open>Math.random()\<close> returning
  1023 / 1024 = 0.9990234375 (a binary64 number, whose product with 1001 is one too) the
  jitter is 1000, which is not below 1000, and the first retry moves the interval from 1000
  to 2 * 1000 + 1000.
\<close>

theorem retry_jitter_reaches_1000:
  "is_random (1023 / 1024) \<and>
   \<not> getRandomInt (1023 / 1024) 0 1000 < 1000 \<and>
   interval (fst (retry new_RetryHandler Resume (1023 / 1024))) =
     2 * interval new_RetryHandler + 1000"
  by (simp add: is_random_def getRandomInt_def retry_def nextInterval_def new_RetryHandler_def
      floor_eq_iff)

text \<open>
  C4, amended: a retry starts one timer with the interval as it was, and then, on a retry
  handler made by the constructor and after any history of calls, the interval becomes
  \<open>min (2 * previous + jitter) 60000\<close>, where the jitter, the result of
  \<^verbatim>\<open>getRandomInt_(0, 1000)\<close>, is an integer from 0 to 1000, both included.
\<close>

theorem retry_next_interval:
  assumes "is_random rnd"
  shows "interval (fst (retry (calls new_RetryHandler cs) fn rnd)) =
           min (2 * interval (calls new_RetryHandler cs) + getRandomInt rnd 0 1000) 60000 \<and>
         0 \<le> getRandomInt rnd 0 1000 \<and> getRandomInt rnd 0 1000 \<le> 1000 \<and>
         snd (retry (calls new_RetryHandler cs) fn rnd) =
           [SetTimeout fn (interval (calls new_RetryHandler cs))]"
proof -
  have "maxInterval (calls new_RetryHandler cs) = 60000"
    by (simp add: maxInterval_calls new_RetryHandler_def)
  then have "interval (fst (retry (calls new_RetryHandler cs) fn rnd)) =
      min (2 * interval (calls new_RetryHandler cs) + getRandomInt rnd 0 1000) 60000"
    by (simp add: retry_def nextInterval_def)
  moreover note getRandomInt_bounds[OF assms]
  moreover have "snd (retry (calls new_RetryHandler cs) fn rnd) =
      [SetTimeout fn (interval (calls new_RetryHandler cs))]"
    by (simp add: retry_def)
  ultimately show ?thesis by blast
qed

theorem retry_next_interval_witness:
  "interval (fst (retry (calls new_RetryHandler [Retry Resume (1 / 2)]) Resume (1023 / 1024))) =
     min (2 * interval (calls new_RetryHandler [Retry Resume (1 / 2)])
          + getRandomInt (1023 / 1024) 0 1000) 60000 \<and>
   0 \<le> getRandomInt (1023 / 1024) 0 1000 \<and> getRandomInt (1023 / 1024) 0 1000 \<le> 1000 \<and>
   snd (retry (calls new_RetryHandler [Retry Resume (1 / 2)]) Resume (1023 / 1024)) =
     [SetTimeout Resume (interval (calls new_RetryHandler [Retry Resume (1 / 2)]))]"
proof -
  have "is_random (1023 / 1024)" by (simp add: is_random_def)
  then show ?thesis by (rule retry_next_interval)
qed

text \<open>
  C5, as the spec states it, fails for the statuses 200 and 201: only the branch for 308
  calls \<^verbatim>\<open>reset\<close>. In the example session the first chunk fails with a network error, the
  retry (with \<^verbatim>\<open>Math.random()\<close> returning 0.5) moves the interval from 1000 to 2500 and
  starts the timer, the timer sends the probe, and the probe is answered with status 200:
  \<^verbatim>\<open>onComplete\<close> is called and the interval is still 2500.
\<close>

theorem no_reset_on_200:
  "interval (retryHandler (run example_uploader
     [(0, Xhr Upload_onload (reply 200 [(''Location'', ''https://session'')] '''')),
      (1 / 2, Xhr OnContentUploadError (reply 0 [] '''')),
      (0, Timer Resume),
      (0, Xhr OnContentUploadSuccess (reply 200 [] ''{}''))])) = 2500 \<and>
   filter (\<lambda>eff. \<not> is_send eff) (effects example_uploader
     [(0, Xhr Upload_onload (reply 200 [(''Location'', ''https://session'')] '''')),
      (1 / 2, Xhr OnContentUploadError (reply 0 [] '''')),
      (0, Timer Resume),
      (0, Xhr OnContentUploadSuccess (reply 200 [] ''{}''))]) =
     [SetTimeout Resume 1000, OnComplete ''{}'']"
  by (simp add: example_uploader_def new_MediaUploader_def new_RetryHandler_def reply_def
      upload_onload_def getResponseHeader_def sendFile_request onContentUploadError_def
      retry_def nextInterval_def getRandomInt_def floor_eq_iff resume_def
      onContentUploadSuccess_def)

text \<open>
  C5, amended: after a content transfer response with status 308 whose \<^verbatim>\<open>Range\<close> header
  is absent, empty or holds a digit, the retry interval is 1000; a response with status
  200 or 201 calls \<^verbatim>\<open>onComplete\<close> with the response body and leaves the session, its retry
  interval included, as it was.
\<close>

theorem reset_on_308_only:
  "(status e = 308 \<and>
      (getResponseHeader e ''Range'' = None \<or>
       (\<exists>h. getResponseHeader e ''Range'' = Some h \<and> (h = [] \<or> (\<exists>c \<in> set h. is_digit c)))) \<longrightarrow>
      interval (retryHandler (fst (step s rnd (Xhr OnContentUploadSuccess e)))) = 1000) \<and>
   (status e = 200 \<or> status e = 201 \<longrightarrow>
      step s rnd (Xhr OnContentUploadSuccess e) = (s, [OnComplete (response e)]))"
proof (intro conjI impI)
  assume h: "status e = 308 \<and>
      (getResponseHeader e ''Range'' = None \<or>
       (\<exists>h. getResponseHeader e ''Range'' = Some h \<and> (h = [] \<or> (\<exists>c \<in> set h. is_digit c))))"
  then obtain s1 where "extractRange s e = Inr s1"
    using extractRange_cases[of s e] by auto
  with h show "interval (retryHandler (fst (step s rnd (Xhr OnContentUploadSuccess e)))) = 1000"
    by (simp add: onContentUploadSuccess_def Let_def reset_def)
next
  assume "status e = 200 \<or> status e = 201"
  then show "step s rnd (Xhr OnContentUploadSuccess e) = (s, [OnComplete (response e)])"
    by (auto simp: onContentUploadSuccess_def)
qed

theorem reset_on_308_only_witness:
  "interval (retryHandler (fst (step
     (example_uploader\<lparr>retryHandler := \<lparr>interval = 2500, maxInterval = 60000\<rparr>\<rparr>) 0
     (Xhr OnContentUploadSuccess (reply 308 [(''Range'', ''bytes=0-3'')] ''''))))) = 1000 \<and>
   step (example_uploader\<lparr>retryHandler := \<lparr>interval = 2500, maxInterval = 60000\<rparr>\<rparr>) 0
     (Xhr OnContentUploadSuccess (reply 201 [] ''{}'')) =
     (example_uploader\<lparr>retryHandler := \<lparr>interval = 2500, maxInterval = 60000\<rparr>\<rparr>,
      [OnComplete ''{}''])"
proof -
  have a: "status (reply 308 [(''Range'', ''bytes=0-3'')] '''') = 308 \<and>
      (getResponseHeader (reply 308 [(''Range'', ''bytes=0-3'')] '''') ''Range'' = None \<or>
       (\<exists>h. getResponseHeader (reply 308 [(''Range'', ''bytes=0-3'')] '''') ''Range'' = Some h \<and>
          (h = [] \<or> (\<exists>c \<in> set h. is_digit c))))"
    by (simp add: reply_def getResponseHeader_def is_digit_def)
  have b: "status (reply 201 [] ''{}'') = 200 \<or> status (reply 201 [] ''{}'') = 201"
    by (simp add: reply_def)
  from a b
    reset_on_308_only[of "reply 308 [(''Range'', ''bytes=0-3'')] ''''"
      "example_uploader\<lparr>retryHandler := \<lparr>interval = 2500, maxInterval = 60000\<rparr>\<rparr>" 0]
    reset_on_308_only[of "reply 201 [] ''{}''"
      "example_uploader\<lparr>retryHandler := \<lparr>interval = 2500, maxInterval = 60000\<rparr>\<rparr>" 0]
  show ?thesis by (simp add: reply_def)
qed

text \<open>
  C6: on a retry handler made by the constructor, after every history of \<^verbatim>\<open>retry\<close> and
  \<^verbatim>\<open>reset\<close> calls (with random numbers as \<^verbatim>\<open>Math.random()\<close> returns them), the interval is
  at least 1000 and at most 60000, and one more \<^verbatim>\<open>retry\<close> does not make it smaller: so it
  does not decrease along retries that follow each other with no reset between them.
\<close>

theorem backoff_interval_invariant:
  assumes "\<forall>c \<in> set cs. random_call c" and "is_random rnd"
  shows "1000 \<le> interval (calls new_RetryHandler cs) \<and>
         interval (calls new_RetryHandler cs) \<le> 60000 \<and>
         interval (calls new_RetryHandler cs) \<le>
           interval (calls new_RetryHandler (cs @ [Retry fn rnd]))"
proof -
  have b: "1000 \<le> interval (calls new_RetryHandler cs)"
    "interval (calls new_RetryHandler cs) \<le> 60000"
    using interval_calls[OF assms(1)] by simp_all
  have "maxInterval (calls new_RetryHandler cs) = 60000"
    by (simp add: maxInterval_calls new_RetryHandler_def)
  with b getRandomInt_bounds[OF assms(2)]
  have "interval (calls new_RetryHandler cs) \<le>
      interval (calls new_RetryHandler (cs @ [Retry fn rnd]))"
    by (simp add: calls_snoc retry_def nextInterval_def)
  with b show ?thesis by simp
qed

theorem backoff_interval_invariant_witness:
  "1000 \<le> interval (calls new_RetryHandler [Retry Resume (1 / 2), Reset, Retry Resume (1999 / 2000)]) \<and>
   interval (calls new_RetryHandler [Retry Resume (1 / 2), Reset, Retry Resume (1999 / 2000)]) \<le> 60000 \<and>
   interval (calls new_RetryHandler [Retry Resume (1 / 2), Reset, Retry Resume (1999 / 2000)]) \<le>
     interval (calls new_RetryHandler
       ([Retry Resume (1 / 2), Reset, Retry Resume (1999 / 2000)] @ [Retry Resume (1 / 4)]))"
proof -
  have a: "\<forall>c \<in> set [Retry Resume (1 / 2), Reset, Retry Resume (1999 / 2000)]. random_call c"
    by (simp add: is_random_def)
  have b: "is_random (1 / 4)" by (simp add: is_random_def)
  show ?thesis by (rule backoff_interval_invariant[OF a b])
qed

text \<open>
  C7: the response of the initiation request. A \<^verbatim>\<open>load\<close> event with a status below 400
  stores the \<^verbatim>\<open>Location\<close> header as the session's URL and starts the content transfer:
  it sends exactly one request, the \<^verbatim>\<open>PUT\<close> of \<^verbatim>\<open>sendFile_\<close> to the new URL, with the
  file's bytes from the offset on and the handlers of a content transfer. A \<^verbatim>\<open>load\<close>
  event with a status of 400 or more, and every \<^verbatim>\<open>error\<close> event, call \<^verbatim>\<open>onError\<close> once
  with the response body and do nothing else. No event of a session, in any state, sends
  the initiation request again.
\<close>

theorem initiation_response:
  "(status e < 400 \<longrightarrow>
      step s rnd (Xhr Upload_onload e) =
        (s\<lparr>url := getResponseHeader e ''Location''\<rparr>,
         [Send \<lparr>req_method = ''PUT'', req_url = getResponseHeader e ''Location'',
            req_headers =
              [(''Content-Type'', contentType s),
               (''Content-Range'',
                  ''bytes '' @ toString (offset s) @ ''-''
                    @ toString ((if chunkSize s = 0 then file_size s
                                 else min (offset s + chunkSize s) (file_size s)) - 1)
                    @ ''/'' @ toString (file_size s)),
               (''X-Upload-Content-Type'', file_type s)],
            onload = OnContentUploadSuccess, onerror = OnContentUploadError,
            body = (if offset s \<noteq> 0 \<or> chunkSize s \<noteq> 0
                    then Slice (offset s)
                      (if chunkSize s = 0 then file_size s
                       else min (offset s + chunkSize s) (file_size s))
                    else WholeFile)\<rparr>]) \<and>
      snd (step s rnd (Xhr Upload_onload e)) =
        sendFile (s\<lparr>url := getResponseHeader e ''Location''\<rparr>)) \<and>
   (400 \<le> status e \<longrightarrow> step s rnd (Xhr Upload_onload e) = (s, [OnError (response e)])) \<and>
   step s rnd (Xhr OnUploadError e) = (s, [OnError (response e)]) \<and>
   (\<forall>eff \<in> set (snd (step s' rnd' ev)). \<not> is_initiation eff)"
  using step_not_initiation[of _ s' rnd' ev]
  by (auto simp: upload_onload_def onUploadError_def Let_def sendFile_request)

theorem initiation_response_witness:
  "step example_uploader 0 (Xhr Upload_onload (reply 200 [(''Location'', ''https://session'')] '''')) =
     (example_uploader\<lparr>url := Some ''https://session''\<rparr>,
      [Send \<lparr>req_method = ''PUT'', req_url = Some ''https://session'',
         req_headers =
           [(''Content-Type'', ''video/mp4''),
            (''Content-Range'', ''bytes 0-3/10''),
            (''X-Upload-Content-Type'', ''video/mp4'')],
         onload = OnContentUploadSuccess, onerror = OnContentUploadError,
         body = Slice 0 4\<rparr>]) \<and>
   step example_uploader 0 (Xhr Upload_onload (reply 403 [] ''Forbidden'')) =
     (example_uploader, [OnError ''Forbidden'']) \<and>
   step example_uploader 0 (Xhr OnUploadError (reply 0 [] '''')) =
     (example_uploader, [OnError '''']) \<and>
   list_all (\<lambda>eff. \<not> is_initiation eff)
     (snd (step example_uploader 0
        (Xhr Upload_onload (reply 200 [(''Location'', ''https://session'')] ''''))))"
proof -
  have a: "status (reply 200 [(''Location'', ''https://session'')] '''') < 400"
    and b: "400 \<le> status (reply 403 [] ''Forbidden'')"
    by (simp_all add: reply_def)
  note t = initiation_response[of "reply 200 [(''Location'', ''https://session'')] ''''"
      example_uploader 0 example_uploader 0
      "Xhr Upload_onload (reply 200 [(''Location'', ''https://session'')] '''')"]
  note u = initiation_response[of "reply 403 [] ''Forbidden''" example_uploader 0
      example_uploader 0 "Timer Resume"]
  note v = initiation_response[of "reply 0 [] ''''" example_uploader 0
      example_uploader 0 "Timer Resume"]
  from a t have "step example_uploader 0
      (Xhr Upload_onload (reply 200 [(''Location'', ''https://session'')] '''')) =
     (example_uploader\<lparr>url := Some ''https://session''\<rparr>,
      [Send \<lparr>req_method = ''PUT'', req_url = Some ''https://session'',
         req_headers =
           [(''Content-Type'', ''video/mp4''),
            (''Content-Range'', ''bytes 0-3/10''),
            (''X-Upload-Content-Type'', ''video/mp4'')],
         onload = OnContentUploadSuccess, onerror = OnContentUploadError,
         body = Slice 0 4\<rparr>])"
    by (simp add: reply_def getResponseHeader_def example_uploader_fields toString_examples)
  moreover from b u have "step example_uploader 0 (Xhr Upload_onload (reply 403 [] ''Forbidden'')) =
     (example_uploader, [OnError ''Forbidden''])"
    by (simp add: reply_def)
  moreover from v have "step example_uploader 0 (Xhr OnUploadError (reply 0 [] '''')) =
     (example_uploader, [OnError ''''])"
    by (simp add: reply_def)
  moreover from t have "list_all (\<lambda>eff. \<not> is_initiation eff)
     (snd (step example_uploader 0
        (Xhr Upload_onload (reply 200 [(''Location'', ''https://session'')] ''''))))"
    by (simp add: list_all_iff)
  ultimately show ?thesis by simp
qed

text \<open>
  C8: the callback of a status query. On the status \<^verbatim>\<open>uploaded\<close> it shows the status and
  the video's URL on the page and starts one timer of 60000 ms for the next query; on
  \<^verbatim>\<open>processed\<close> it shows the player and the final status and starts no timer; on every
  other status it shows that transcoding failed and starts no timer; on an error of the
  query it starts one timer of the same 60000 ms. The callback itself sends no query; the
  timer, when it fires, calls \<^verbatim>\<open>pollForVideoStatus\<close>, which sends exactly one.
\<close>

theorem poll_status:
  "(uploadStatus it = ''uploaded'' \<longrightarrow>
      (\<exists>effs. pollForVideoStatus_callback v (ItemsResponse (it # its)) = Inr effs \<and>
         shown effs =
           [Append ''#post-upload-status'' ''<li>Upload status: uploaded</li>'',
            ValTrigger ''.note-video-url'' (''https://www.youtube.com/watch?v='' @ videoId v)
              ''paste''] \<and>
         timeouts effs = [60000] \<and> requests effs = [])) \<and>
   (uploadStatus it = ''processed'' \<longrightarrow>
      (\<exists>effs. pollForVideoStatus_callback v (ItemsResponse (it # its)) = Inr effs \<and>
         shown effs =
           [Append ''#player'' (embedHtml it),
            Append ''#post-upload-status'' ''<li>Final status.</li>''] \<and>
         timeouts effs = [] \<and> requests effs = [])) \<and>
   (uploadStatus it \<noteq> ''uploaded'' \<and> uploadStatus it \<noteq> ''processed'' \<longrightarrow>
      (\<exists>effs. pollForVideoStatus_callback v (ItemsResponse (it # its)) = Inr effs \<and>
         shown effs = [Append ''#post-upload-status'' ''<li>Transcoding failed.</li>''] \<and>
         timeouts effs = [] \<and> requests effs = [])) \<and>
   (\<exists>effs. pollForVideoStatus_callback v (ErrorResponse message) = Inr effs \<and>
      timeouts effs = [60000] \<and> requests effs = []) \<and>
   requests (pollForVideoStatus v) =
     [GapiRequest ''/youtube/v3/videos'' [(''part'', ''status,player''), (''id'', videoId v)]] \<and>
   timeouts (pollForVideoStatus v) = []"
  by (simp add: pollForVideoStatus_callback_def pollForVideoStatus_def
      STATUS_POLLING_INTERVAL_MILLIS_def)

theorem poll_status_witness:
  "pollForVideoStatus_callback \<lparr>videoId = ''abc''\<rparr>
     (ItemsResponse [\<lparr>uploadStatus = ''uploaded'', embedHtml = ''<iframe>''\<rparr>]) =
     Inr [Append ''#post-upload-status'' ''<li>Upload status: uploaded</li>'',
          ConsoleLogThis,
          ValTrigger ''.note-video-url'' ''https://www.youtube.com/watch?v=abc'' ''paste'',
          SetTimeoutPoll 60000] \<and>
   pollForVideoStatus_callback \<lparr>videoId = ''abc''\<rparr>
     (ItemsResponse [\<lparr>uploadStatus = ''processed'', embedHtml = ''<iframe>''\<rparr>]) =
     Inr [Append ''#player'' ''<iframe>'',
          Append ''#post-upload-status'' ''<li>Final status.</li>''] \<and>
   pollForVideoStatus_callback \<lparr>videoId = ''abc''\<rparr>
     (ItemsResponse [\<lparr>uploadStatus = ''rejected'', embedHtml = ''''\<rparr>]) =
     Inr [Append ''#post-upload-status'' ''<li>Transcoding failed.</li>''] \<and>
   pollForVideoStatus_callback \<lparr>videoId = ''abc''\<rparr> (ErrorResponse ''Backend Error'') =
     Inr [ConsoleLog ''Backend Error'', SetTimeoutPoll 60000]"
proof -
  have "pollForVideoStatus_callback \<lparr>videoId = ''abc''\<rparr>
     (ItemsResponse [\<lparr>uploadStatus = ''uploaded'', embedHtml = ''<iframe>''\<rparr>]) =
     Inr [Append ''#post-upload-status'' ''<li>Upload status: uploaded</li>'',
          ConsoleLogThis,
          ValTrigger ''.note-video-url'' ''https://www.youtube.com/watch?v=abc'' ''paste'',
          SetTimeoutPoll 60000]"
    using poll_status[of "\<lparr>uploadStatus = ''uploaded'', embedHtml = ''<iframe>''\<rparr>"
        "\<lparr>videoId = ''abc''\<rparr>" "[]" "''Backend Error''"]
    by (simp add: pollForVideoStatus_callback_def STATUS_POLLING_INTERVAL_MILLIS_def)
  moreover have "pollForVideoStatus_callback \<lparr>videoId = ''abc''\<rparr>
     (ItemsResponse [\<lparr>uploadStatus = ''processed'', embedHtml = ''<iframe>''\<rparr>]) =
     Inr [Append ''#player'' ''<iframe>'',
          Append ''#post-upload-status'' ''<li>Final status.</li>'']"
    by (simp add: pollForVideoStatus_callback_def)
  moreover have "pollForVideoStatus_callback \<lparr>videoId = ''abc''\<rparr>
     (ItemsResponse [\<lparr>uploadStatus = ''rejected'', embedHtml = ''''\<rparr>]) =
     Inr [Append ''#post-upload-status'' ''<li>Transcoding failed.</li>'']"
    by (simp add: pollForVideoStatus_callback_def)
  moreover have "pollForVideoStatus_callback \<lparr>videoId = ''abc''\<rparr> (ErrorResponse ''Backend Error'') =
     Inr [ConsoleLog ''Backend Error'', SetTimeoutPoll 60000]"
    by (simp add: pollForVideoStatus_callback_def STATUS_POLLING_INTERVAL_MILLIS_def)
  ultimately show ?thesis by simp
qed

text \<open>
  C9, as the spec states it, fails: \<^verbatim>\<open>extractRange_\<close> stores whatever number the header
  ends with, plus one. In the example session (a file of 10 bytes) a 308 response with
  \<^verbatim>\<open>Range: bytes=0-99999\<close> sets the offset to 100000, beyond the size, and a later 308
  response with \<^verbatim>\<open>Range: bytes=0-2\<close> sets it back to 3.
\<close>

theorem offset_follows_range_header:
  "file_size (run example_uploader
     [(0, Xhr Upload_onload (reply 200 [(''Location'', ''https://session'')] '''')),
      (0, Xhr OnContentUploadSuccess (reply 308 [(''Range'', ''bytes=0-99999'')] ''''))]) = 10 \<and>
   offset (run example_uploader
     [(0, Xhr Upload_onload (reply 200 [(''Location'', ''https://session'')] '''')),
      (0, Xhr OnContentUploadSuccess (reply 308 [(''Range'', ''bytes=0-99999'')] ''''))]) = 100000 \<and>
   offset (run example_uploader
     [(0, Xhr Upload_onload (reply 200 [(''Location'', ''https://session'')] '''')),
      (0, Xhr OnContentUploadSuccess (reply 308 [(''Range'', ''bytes=0-99999'')] '''')),
      (0, Xhr OnContentUploadSuccess (reply 308 [(''Range'', ''bytes=0-2'')] ''''))]) = 3"
  by (simp add: example_uploader_def new_MediaUploader_def reply_def upload_onload_def
      onContentUploadSuccess_def extractRange_def getResponseHeader_def match_digits_def
      is_digit_def parseInt_def Let_def)

text \<open>
  C9, amended: in a session that starts with its offset not above the file's size, and in
  which every 308 response's \<^verbatim>\<open>Range\<close> header ends with a number \<open>u\<close> such that \<open>u + 1\<close>
  is neither below the offset of that moment nor above the size, the offset never exceeds
  the size and never decreases: after any events \<open>evs1\<close> and any further events \<open>evs2\<close>,
  the offset is at least what it was after \<open>evs1\<close> and at most the size.
\<close>

theorem offset_bounded_monotone:
  assumes "offset s \<le> file_size s" and "all_in_bounds s (evs1 @ evs2)"
  shows "offset (run s evs1) \<le> offset (run s (evs1 @ evs2)) \<and>
         offset (run s (evs1 @ evs2)) \<le> file_size s \<and>
         file_size (run s (evs1 @ evs2)) = file_size s"
proof -
  from assms(2) have a: "all_in_bounds s evs1" "all_in_bounds (run s evs1) evs2"
    by (simp_all add: all_in_bounds_append)
  from run_offset[OF a(1) assms(1)]
  have b: "offset (run s evs1) \<le> file_size (run s evs1)" "file_size (run s evs1) = file_size s"
    by simp_all
  from run_offset[OF a(2) b(1)] b(2) show ?thesis by (simp add: run_append)
qed

theorem offset_bounded_monotone_witness:
  "offset (run example_uploader
     [(0, Xhr Upload_onload (reply 200 [(''Location'', ''https://session'')] '''')),
      (0, Xhr OnContentUploadSuccess (reply 308 [(''Range'', ''bytes=0-3'')] ''''))]) \<le>
   offset (run example_uploader
     ([(0, Xhr Upload_onload (reply 200 [(''Location'', ''https://session'')] '''')),
       (0, Xhr OnContentUploadSuccess (reply 308 [(''Range'', ''bytes=0-3'')] ''''))] @
      [(1 / 2, Xhr OnContentUploadError (reply 0 [] '''')),
       (0, Timer Resume),
       (0, Xhr OnContentUploadSuccess (reply 308 [(''Range'', ''bytes=0-7'')] ''''))])) \<and>
   offset (run example_uploader
     ([(0, Xhr Upload_onload (reply 200 [(''Location'', ''https://session'')] '''')),
       (0, Xhr OnContentUploadSuccess (reply 308 [(''Range'', ''bytes=0-3'')] ''''))] @
      [(1 / 2, Xhr OnContentUploadError (reply 0 [] '''')),
       (0, Timer Resume),
       (0, Xhr OnContentUploadSuccess (reply 308 [(''Range'', ''bytes=0-7'')] ''''))])) \<le>
   file_size example_uploader \<and>
   offset (run example_uploader
     [(0, Xhr Upload_onload (reply 200 [(''Location'', ''https://session'')] '''')),
      (0, Xhr OnContentUploadSuccess (reply 308 [(''Range'', ''bytes=0-3'')] '''')),
      (1 / 2, Xhr OnContentUploadError (reply 0 [] '''')),
      (0, Timer Resume),
      (0, Xhr OnContentUploadSuccess (reply 308 [(''Range'', ''bytes=0-7'')] ''''))]) = 8"
proof -
  have a: "offset example_uploader \<le> file_size example_uploader"
    by (simp add: example_uploader_fields)
  have b: "all_in_bounds example_uploader
     ([(0, Xhr Upload_onload (reply 200 [(''Location'', ''https://session'')] '''')),
       (0, Xhr OnContentUploadSuccess (reply 308 [(''Range'', ''bytes=0-3'')] ''''))] @
      [(1 / 2, Xhr OnContentUploadError (reply 0 [] '''')),
       (0, Timer Resume),
       (0, Xhr OnContentUploadSuccess (reply 308 [(''Range'', ''bytes=0-7'')] ''''))])"
    by (simp add: example_uploader_def new_MediaUploader_def new_RetryHandler_def reply_def
        upload_onload_def onContentUploadSuccess_def onContentUploadError_def retry_def
        extractRange_def getResponseHeader_def match_digits_def is_digit_def parseInt_def
        Let_def reset_def)
  have c: "offset (run example_uploader
     [(0, Xhr Upload_onload (reply 200 [(''Location'', ''https://session'')] '''')),
      (0, Xhr OnContentUploadSuccess (reply 308 [(''Range'', ''bytes=0-3'')] '''')),
      (1 / 2, Xhr OnContentUploadError (reply 0 [] '''')),
      (0, Timer Resume),
      (0, Xhr OnContentUploadSuccess (reply 308 [(''Range'', ''bytes=0-7'')] ''''))]) = 8"
    by (simp add: example_uploader_def new_MediaUploader_def new_RetryHandler_def reply_def
        upload_onload_def onContentUploadSuccess_def onContentUploadError_def retry_def
        extractRange_def getResponseHeader_def match_digits_def is_digit_def parseInt_def
        Let_def reset_def)
  from offset_bounded_monotone[OF a b] c show ?thesis by simp
qed

text \<open>
  C10: a \<^verbatim>\<open>load\<close> event of a content transfer (or of a probe) whose status is none of
  200, 201 and 308 changes nothing and causes nothing: the handler returns without a call
  of \<^verbatim>\<open>onComplete\<close> or \<^verbatim>\<open>onError\<close>, without a request and without a timer.
\<close>

theorem unexpected_status_stalls:
  assumes "status e \<noteq> 200" "status e \<noteq> 201" "status e \<noteq> 308"
  shows "onContentUploadSuccess s e = Inr (s, []) \<and>
         step s rnd (Xhr OnContentUploadSuccess e) = (s, [])"
  using assms by (simp add: onContentUploadSuccess_def)

theorem unexpected_status_stalls_witness:
  "onContentUploadSuccess example_uploader (reply 204 [] '''') = Inr (example_uploader, []) \<and>
   step example_uploader 0 (Xhr OnContentUploadSuccess (reply 204 [] '''')) = (example_uploader, []) \<and>
   step example_uploader 0 (Xhr OnContentUploadSuccess (reply 302 [] '''')) = (example_uploader, []) \<and>
   step example_uploader 0 (Xhr OnContentUploadSuccess (reply 503 [] '''')) = (example_uploader, [])"
proof -
  have "status (reply 204 [] '''') \<noteq> 200" "status (reply 204 [] '''') \<noteq> 201"
    "status (reply 204 [] '''') \<noteq> 308"
    by (simp_all add: reply_def)
  note a = unexpected_status_stalls[OF this, of example_uploader 0]
  have "status (reply 302 [] '''') \<noteq> 200" "status (reply 302 [] '''') \<noteq> 201"
    "status (reply 302 [] '''') \<noteq> 308"
    by (simp_all add: reply_def)
  note b = unexpected_status_stalls[OF this, of example_uploader 0]
  have "status (reply 503 [] '''') \<noteq> 200" "status (reply 503 [] '''') \<noteq> 201"
    "status (reply 503 [] '''') \<noteq> 308"
    by (simp_all add: reply_def)
  note c = unexpected_status_stalls[OF this, of example_uploader 0]
  from a b c show ?thesis by simp
qed

end
